theory Spec2Isabelle
  imports Complex_Main "HOL-Library.Sublist"
begin

section \<open>JavaScript strings\<close>

text \<open>
  A JavaScript string is modelled as a \<^typ>\<open>string\<close>, one \<^typ>\<open>char\<close> per code unit; the
  model covers the code units below 256. \<open>s.startsWith(p)\<close> is \<^term>\<open>prefix p s\<close>,
  \<open>s.substring(0, n)\<close> is \<^term>\<open>take n s\<close> and \<open>s.length\<close> is \<^term>\<open>length s\<close>.
\<close>

definition includes_str :: "string \<Rightarrow> string \<Rightarrow> bool" where
  \<comment> \<open>\<open>s.includes(p)\<close>\<close>
  "includes_str s p = sublist p s"

definition is_js_space :: "char \<Rightarrow> bool" where
  \<comment> \<open>the white space and line terminators that \<open>trim\<close> removes: TAB, LF, VT, FF, CR, SP, NBSP\<close>
  "is_js_space c = (of_char c \<in> {9, 10, 11, 12, 13, 32, 160 :: nat})"

definition trim :: "string \<Rightarrow> string" where
  \<comment> \<open>\<open>s.trim()\<close>\<close>
  "trim s = rev (dropWhile is_js_space (rev (dropWhile is_js_space s)))"

definition lower_char :: "char \<Rightarrow> char" where
  \<comment> \<open>\<open>toLowerCase\<close> on one code unit: A-Z, and the Latin-1 capitals other than the
      multiplication sign, move up by 32\<close>
  "lower_char c =
     (let n = (of_char c :: nat) in
      if (65 \<le> n \<and> n \<le> 90) \<or> (192 \<le> n \<and> n \<le> 222 \<and> n \<noteq> 215) then char_of (n + 32) else c)"

definition toLowerCase :: "string \<Rightarrow> string" where
  "toLowerCase s = map lower_char s"

fun replace_first :: "string \<Rightarrow> string \<Rightarrow> string \<Rightarrow> string" where
  \<comment> \<open>\<open>s.replace(pat, rep)\<close> with a string pattern: only the first occurrence is replaced\<close>
  "replace_first pat rep [] = (if pat = [] then rep else [])"
| "replace_first pat rep (c # cs) =
     (if prefix pat (c # cs) then rep @ drop (length pat) (c # cs)
      else c # replace_first pat rep cs)"

function replace_all :: "string \<Rightarrow> string \<Rightarrow> string \<Rightarrow> string" where
  \<comment> \<open>\<open>s.replace(/pat/g, rep)\<close> for a literal pattern of at least one character: the
      occurrences are found from left to right and do not overlap\<close>
  "replace_all pat rep [] = []"
| "replace_all pat rep (c # cs) =
     (if prefix pat (c # cs) then rep @ replace_all pat rep (drop (length pat - 1) cs)
      else c # replace_all pat rep cs)"
  by pat_completeness auto
termination
  by (relation "measure (\<lambda>(pat, rep, s). length s)") auto

definition join :: "string \<Rightarrow> string list \<Rightarrow> string" where
  \<comment> \<open>\<open>xs.join(sep)\<close> on an array of strings\<close>
  "join sep xs = (case xs of [] \<Rightarrow> [] | y # ys \<Rightarrow> y @ concat (map (\<lambda>z. sep @ z) ys))"

fun show_nat :: "nat \<Rightarrow> string" where
  \<comment> \<open>a non-negative integer inside a template literal: its decimal digits\<close>
  "show_nat n =
     (if n < 10 then [''0123456789'' ! n]
      else show_nat (n div 10) @ [''0123456789'' ! (n mod 10)])"

section \<open>Post-processing of the generated query\<close>

definition fence :: string where
  "fence = ''```''"

definition fence_sql :: string where
  "fence_sql = ''```sql''"

definition sanitize :: "string \<Rightarrow> string" where
  \<comment> \<open>what \<open>generateSQL\<close> does to \<open>response.choices[0].message.content\<close>\<close>
  "sanitize content =
     (let sql = trim content in
      if prefix fence_sql sql
      then trim (replace_first fence [] (replace_first fence_sql [] sql))
      else if prefix fence sql
      then trim (replace_all fence [] sql)
      else sql)"

section \<open>The prompts\<close>

text \<open>
  The three module constants are template literals: each starts with the line break after the
  opening back quote and ends with the one before the closing back quote.
\<close>

definition SCHEMA_INFO :: string where
  \<comment> \<open>the description of the tables\<close>
  \<open>SCHEMA_INFO = concat
    [''\<newline>'',
     ''The database schema consists of the following tables:\<newline>'',
     ''1. **blocks_base**: Stores blockchain block details.\<newline>'',
     ''   - Columns: id, hash, parentHash, timestamp, number, gasLimit, gasUsed, transactionsRoot, receiptsRoot, logsBloom, difficulty, baseFeePerGas, withdrawalsRoot, blobGasUsed, excessBlobGas, parentBeaconBlockRoot, sha3Uncles, miner, stateRoot, nonce, mixHash, extraData, createdAt, updatedAt.\<newline>'',
     ''   - Unique Index: (hash, id).\<newline>'',
     ''2. **deposit_erc20_base**: Stores ERC-20 token deposit logs.\<newline>'',
     ''   - Columns: id, address, topics, data, block_hash, block_number, transaction_hash, transaction_index, log_index, removed, from, to, value.\<newline>'',
     ''   - Unique Index: (transaction_hash, from, id).\<newline>'',
     ''3. **pools_base**: Stores details of token pools.\<newline>'',
     ''   - Columns: id, pool_address, token_a_address, token_b_address, token_a_details, token_b_details, created_at, updated_at.\<newline>'',
     ''   - Unique Index: (id).\<newline>'',
     ''4. **tokens_base**: Stores token details.\<newline>'',
     ''   - Columns: id, token_address, name, symbol, decimals, total_supply, price, created_at, updated_at.\<newline>'',
     ''   - Unique Index: (token_address).\<newline>'',
     ''5. **token_trades_base**: Stores trade records of tokens.\<newline>'',
     ''   - Columns: id, token_address, name, symbol, decimals, total_supply, price, created_at, updated_at, pool_address, transaction_hash.\<newline>'',
     ''   - Unique Index: (token_address, transaction_hash, id).\<newline>'',
     ''6. **transactions_base**: Stores blockchain transaction details.\<newline>'',
     ''   - Columns: id, type, chain_id, nonce, gas_price, gas, to, value, input, r, s, v, hash, block_hash, block_number, transaction_index, from.\<newline>'',
     ''   - Index: (hash, from, id).\<newline>'',
     ''7. **transfer_erc20_base**: Stores ERC-20 token transfer logs.\<newline>'',
     ''   - Columns: id, contract_address, topics, data, block_hash, block_number, transaction_hash, transaction_index, log_index, removed, from, to, value.\<newline>'',
     ''   - Unique Index: (transaction_hash, from, id).\<newline>'',
     ''8. **transfer_erc721_base**: Stores ERC-721 (NFT) transfer logs.\<newline>'',
     ''   - Columns: id, contract_address, topics, data, block_hash, block_number, transaction_hash, transaction_index, log_index, removed, from_address, to_address, token_id.\<newline>'',
     ''   - Unique Index: (transaction_hash, from_address, id).\<newline>'',
     ''9. **users**: Stores user details.\<newline>'',
     ''   - Columns: id, email, password, project_name, limit, created_at, updated_at.\<newline>'',
     ''   - Unique Constraint: (email, id).\<newline>'',
     ''10. **users_base**: Stores blockchain user balances.\<newline>'',
     ''    - Columns: id, address, balances, created_at, updated_at.\<newline>'',
     ''    - Index: (address, id).\<newline>'',
     ''11. **withdrawal_erc20_base**: Stores ERC-20 withdrawal logs.\<newline>'',
     ''    - Columns: id, address, topics, data, block_hash, block_number, transaction_hash, transaction_index, log_index, removed, from, to, value.\<newline>'',
     ''    - Unique Index: (transaction_hash, from, id).\<newline>'']\<close>

definition BLOCKCHAIN_CONTEXT :: string where
  \<comment> \<open>the glossary\<close>
  \<open>BLOCKCHAIN_CONTEXT = concat
    [''\<newline>'',
     ''Common blockchain terms and concepts:\<newline>'',
     ''- Address: A 42-character hexadecimal string starting with '0x' that represents an account or contract\<newline>'',
     ''- Hash: A 66-character hexadecimal string starting with '0x' that uniquely identifies blocks or transactions\<newline>'',
     ''- Token: A fungible asset on the blockchain (ERC-20 standard)\<newline>'',
     ''- NFT: A non-fungible token on the blockchain (ERC-721 standard)\<newline>'',
     ''- Block: A container for transactions, each with a unique hash and number\<newline>'',
     ''- Transaction: A transfer of value or data between addresses\<newline>'',
     ''- Gas: Cost to execute operations on the blockchain\<newline>'',
     ''- Base Chain: An Ethereum Layer 2 blockchain built with the OP Stack\<newline>'',
     ''- In this database, 'value' columns for tokens often use wei (1 ETH = 10^18 wei)\<newline>'',
     ''- Timestamps are typically stored in Unix epoch time (seconds since Jan 1, 1970)\<newline>'']\<close>

definition EXAMPLE_QUERIES :: string where
  \<comment> \<open>the worked examples\<close>
  \<open>EXAMPLE_QUERIES = concat
    [''\<newline>'',
     ''Example SQL queries for common blockchain questions:\<newline>'',
     ''\<newline>'',
     ''-- Get the 10 most recent blocks\<newline>'',
     ''SELECT hash, number, timestamp, gasUsed, gasLimit, miner\<newline>'',
     ''FROM blocks_base\<newline>'',
     ''ORDER BY CAST(number AS BIGINT) DESC\<newline>'',
     ''LIMIT 10;\<newline>'',
     ''\<newline>'',
     ''-- Get the top 10 tokens by price\<newline>'',
     ''SELECT token_address, name, symbol, decimals, price\<newline>'',
     ''FROM tokens_base\<newline>'',
     ''WHERE price IS NOT NULL\<newline>'',
     ''ORDER BY CAST(price AS DECIMAL) DESC\<newline>'',
     ''LIMIT 10;\<newline>'',
     ''\<newline>'',
     ''-- Get the top 10 addresses by number of transactions\<newline>'',
     ''SELECT "from" as address, COUNT(*) as tx_count\<newline>'',
     ''FROM transactions_base\<newline>'',
     ''GROUP BY "from"\<newline>'',
     ''ORDER BY tx_count DESC\<newline>'',
     ''LIMIT 10;\<newline>'',
     ''\<newline>'',
     ''-- Get the total value of ERC-20 transfers for each token\<newline>'',
     ''SELECT contract_address, SUM(CAST(value AS DECIMAL)) as total_value\<newline>'',
     ''FROM transfer_erc20_base\<newline>'',
     ''GROUP BY contract_address\<newline>'',
     ''ORDER BY total_value DESC\<newline>'',
     ''LIMIT 10;\<newline>'',
     ''\<newline>'',
     ''-- Get average gas used per block over time (by day)\<newline>'',
     ''SELECT \<newline>'',
     ''    TO_TIMESTAMP(CAST(timestamp AS BIGINT)) as block_date,\<newline>'',
     ''    AVG(CAST(gasUsed AS DECIMAL)) as avg_gas_used\<newline>'',
     ''FROM blocks_base\<newline>'',
     ''GROUP BY TO_CHAR(TO_TIMESTAMP(CAST(timestamp AS BIGINT)), 'YYYY-MM-DD')\<newline>'',
     ''ORDER BY block_date;\<newline>'',
     ''\<newline>'',
     ''-- Get all ERC-721 (NFT) transfers for a specific token contract\<newline>'',
     ''SELECT from_address, to_address, token_id, transaction_hash\<newline>'',
     ''FROM transfer_erc721_base\<newline>'',
     ''WHERE contract_address = '0x123abc...'\<newline>'',
     ''ORDER BY block_number DESC\<newline>'',
     ''LIMIT 20;\<newline>'']\<close>

definition OPENAI_MODEL :: string where
  "OPENAI_MODEL = ''gpt-4o-mini''"

definition suffix_rule :: "string \<Rightarrow> string" where
  \<comment> \<open>guideline 2 of the system message, for the chain name \<open>chain\<close>\<close>
  \<open>suffix_rule chain =
     ''2. Use table names with the suffix '_'' @ chain @ ''' unless referring to the 'users' table''\<close>

definition generation_systemMessage :: "string \<Rightarrow> string \<Rightarrow> string" where
  \<comment> \<open>\<open>systemMessage\<close> of \<open>generateSQL\<close>\<close>
  \<open>generation_systemMessage schemaInfo chain =
     concat
       [''You are an expert SQL generator for a blockchain database. \<newline>'',
        ''Your task is to convert natural language questions into PostgreSQL queries.\<newline>'',
        ''\<newline>'']
     @ schemaInfo @ ''\<newline>\<newline>''
     @ BLOCKCHAIN_CONTEXT @ ''\<newline>\<newline>''
     @ EXAMPLE_QUERIES @ ''\<newline>\<newline>''
     @ concat
       [''Important SQL writing guidelines:\<newline>'',
        ''1. Always generate valid PostgreSQL syntax\<newline>'']
     @ suffix_rule chain @ ''\<newline>''
     @ concat
       [''3. Handle quoting properly for reserved words like "from" and "to" in table columns\<newline>'',
        ''4. Cast numeric strings to appropriate types (DECIMAL, BIGINT) when needed for math operations\<newline>'',
        ''5. Use TO_TIMESTAMP() for timestamp conversions when needed\<newline>'',
        ''6. Format timestamps in human-readable format when returning them\<newline>'',
        ''7. Use proper JOIN syntax when combining tables\<newline>'',
        ''8. Add LIMIT clauses (usually LIMIT 10 or 20) unless asked for all records\<newline>'',
        ''9. Add proper WHERE clauses to filter data based on the user's question\<newline>'',
        ''10. NEVER use column names that don't exist in the tables\<newline>'',
        ''\<newline>'']
     @ ''OUTPUT FORMAT: Return ONLY the SQL query, no explanations or markdown formatting.''\<close>

definition summary_systemMessage :: string where
  \<comment> \<open>\<open>systemMessage\<close> of \<open>generateResponse\<close>\<close>
  \<open>summary_systemMessage =
     concat
       [''You are an expert blockchain data analyst who provides clear, concise explanations.\<newline>'',
        ''Your task is to explain query results from a blockchain database in natural language.\<newline>'',
        ''Focus on providing insights and interpreting the data for the user.\<newline>'',
        ''\<newline>'',
        ''Include relevant statistics like:\<newline>'',
        ''- Key metrics and totals\<newline>'',
        ''- Interesting patterns or outliers\<newline>'',
        ''- Time-based trends if applicable\<newline>'',
        ''- Relationships between different data points\<newline>'',
        ''\<newline>'',
        ''Make your response conversational and informative for non-technical users.\<newline>'',
        ''If no results were found, explain why there might be no data and suggest alternatives.\<newline>'',
        ''\<newline>'',
        ''OUTPUT FORMAT: A conversational paragraph or two explaining the results, plus 2-3 bullet points highlighting key insights.\<newline>'']
     @ ''DO NOT include the SQL query in your response unless it's specifically requested.''\<close>

section \<open>Result rows and their display\<close>

text \<open>
  A cell of a result row is a JavaScript value. Numbers and objects (arrays, dates, buffers,
  JSON documents) are kept abstract: the model is parametric in their types \<open>'n\<close> and \<open>'o\<close>
  and in the library functions that print them. A function is given by the text that
  \<open>String\<close> returns for it. A row is a plain object: its own properties are an association
  list, and a name that is not among them is looked up in what a plain object inherits.
\<close>

datatype ('n, 'o) jsvalue =
  JNull | JUndefined | JBool bool | JNum 'n | JStr string | JObj 'o | JFun string

type_synonym ('n, 'o) row = "(string \<times> ('n, 'o) jsvalue) list"

record ('n, 'o) runtime =
  inherited :: "string \<Rightarrow> ('n, 'o) jsvalue"
    \<comment> \<open>the member of this name that a plain object inherits (\<open>constructor\<close>, \<open>toString\<close>,
        \<open>__proto__\<close>, ...), \<open>undefined\<close> when there is none\<close>
  number_toString :: "'n \<Rightarrow> string"  \<comment> \<open>\<open>String(x)\<close> of a number\<close>
  object_toString :: "'o \<Rightarrow> string"  \<comment> \<open>\<open>String(x)\<close> of an object\<close>
  JSON_stringify :: "'o \<Rightarrow> string"  \<comment> \<open>\<open>JSON.stringify(x)\<close> of an object\<close>
  JSON_stringify_rows :: "('n, 'o) row list \<Rightarrow> string"  \<comment> \<open>\<open>JSON.stringify(rows, null, 2)\<close>\<close>
  table_toString :: "string list \<Rightarrow> string list list \<Rightarrow> string"
    \<comment> \<open>\<open>toString()\<close> of a cli-table3 table with this head and these rows\<close>

definition get_col :: "('n, 'o) runtime \<Rightarrow> ('n, 'o) row \<Rightarrow> string \<Rightarrow> ('n, 'o) jsvalue" where
  \<comment> \<open>\<open>row[col]\<close>: an own property, else an inherited member, else \<open>undefined\<close>\<close>
  "get_col rt row col = (case map_of row col of None \<Rightarrow> inherited rt col | Some v \<Rightarrow> v)"

fun String_js :: "('n, 'o) runtime \<Rightarrow> ('n, 'o) jsvalue \<Rightarrow> string" where
  \<comment> \<open>\<open>String(value)\<close>\<close>
  "String_js rt JNull = ''null''"
| "String_js rt JUndefined = ''undefined''"
| "String_js rt (JBool b) = (if b then ''true'' else ''false'')"
| "String_js rt (JNum n) = number_toString rt n"
| "String_js rt (JStr s) = s"
| "String_js rt (JObj ob) = object_toString rt ob"
| "String_js rt (JFun text) = text"

fun format_cell :: "('n, 'o) runtime \<Rightarrow> ('n, 'o) jsvalue \<Rightarrow> string" where
  \<comment> \<open>the body of \<open>columnNames.map(col => ...)\<close> in \<open>formatResultTable\<close>, on \<open>row[col]\<close>\<close>
  "format_cell rt JNull = ''NULL''"
| "format_cell rt (JObj ob) = JSON_stringify rt ob"
| "format_cell rt v =
     take 30 (String_js rt v) @ (if 30 < length (String_js rt v) then ''...'' else [])"

definition table_rows ::
  "('n, 'o) runtime \<Rightarrow> ('n, 'o) row list \<Rightarrow> string list \<Rightarrow> string list list" where
  \<comment> \<open>the rows pushed to the table by \<open>rows.slice(0, 10).forEach(...)\<close>\<close>
  "table_rows rt rows columnNames =
     map (\<lambda>row. map (\<lambda>col. format_cell rt (get_col rt row col)) columnNames) (take 10 rows)"

definition formatResultTable ::
  "('n, 'o) runtime \<Rightarrow> ('n, 'o) row list option \<Rightarrow> string list option \<Rightarrow> string" where
  \<comment> \<open>\<open>None\<close> is a \<open>null\<close> or \<open>undefined\<close> argument\<close>
  "formatResultTable rt rows columnNames =
     (case rows of
        None \<Rightarrow> ''No results''
      | Some rs \<Rightarrow>
          if rs = [] then ''No results''
          else (case columnNames of
                  None \<Rightarrow> ''No results''
                | Some cols \<Rightarrow> table_toString rt cols (table_rows rt rs cols)))"

section \<open>The outside world\<close>

datatype role = System | User

record llm_request =
  req_model :: string
  req_messages :: "(role \<times> string) list"
  req_temperature :: rat

datatype llm_reply =
    LlmThrows string  \<comment> \<open>the call rejects with an error of this \<open>message\<close>\<close>
  | LlmChoices "string option list"
      \<comment> \<open>the call resolves; \<open>message.content\<close> of each choice, \<open>None\<close> for \<open>null\<close>\<close>

datatype ('n, 'o) db_reply =
    DbThrows string  \<comment> \<open>\<open>client.query\<close> rejects with an error of this \<open>message\<close>\<close>
  | DbResult "('n, 'o) row list option" "string list" "nat option"
      \<comment> \<open>\<open>result.rows\<close> (\<open>None\<close> when falsy), the names of \<open>result.fields\<close>,
          \<open>result.rowCount\<close> (\<open>None\<close> for \<open>null\<close>)\<close>

record ('n, 'o) world =
  llm :: "llm_request \<Rightarrow> llm_reply"  \<comment> \<open>\<open>client.chat.completions.create\<close>\<close>
  db_query :: "string \<Rightarrow> ('n, 'o) db_reply"  \<comment> \<open>\<open>client.query\<close>\<close>
  db_end :: "(string \<times> string) option"
    \<comment> \<open>\<open>dbClient.end()\<close>: \<open>None\<close> when it resolves, else the \<open>message\<close> and \<open>stack\<close> of
        the error\<close>
  export_answer :: string  \<comment> \<open>what the user types at the export question\<close>
  now_iso :: string  \<comment> \<open>\<open>new Date().toISOString()\<close>\<close>
  csv_write :: "string \<Rightarrow> (string \<times> string) list \<Rightarrow> ('n, 'o) row list \<Rightarrow> string option"
    \<comment> \<open>\<open>writeRecords\<close> of a writer for this path and header: \<open>None\<close> when it resolves, else
        the \<open>message\<close> of the error\<close>

text \<open>
  What a function does to the outside world is the list of its events, in order. The colours
  that chalk adds to a console line are left out.
\<close>

datatype ('n, 'o) event =
    ConsoleLog string
  | ConsoleError string
  | LlmCall llm_request
  | DbQuery string
  | DbEnd
  | RlClose
  | RlQuestion string
  | CsvWriteRecords string "(string \<times> string) list" "('n, 'o) row list"
  | PromptUser  \<comment> \<open>\<open>promptUser()\<close>: the loop asks for the next question\<close>

fun llm_calls :: "('n, 'o) event list \<Rightarrow> llm_request list" where
  "llm_calls [] = []"
| "llm_calls (LlmCall r # es) = r # llm_calls es"
| "llm_calls (e # es) = llm_calls es"

fun db_queries :: "('n, 'o) event list \<Rightarrow> string list" where
  "db_queries [] = []"
| "db_queries (DbQuery q # es) = q # db_queries es"
| "db_queries (e # es) = db_queries es"

fun csv_files :: "('n, 'o) event list \<Rightarrow> string list" where
  "csv_files [] = []"
| "csv_files (CsvWriteRecords path header rows # es) = path # csv_files es"
| "csv_files (e # es) = csv_files es"

definition show_null :: "string option \<Rightarrow> string" where
  \<comment> \<open>a value that is a string or \<open>null\<close>, printed\<close>
  "show_null x = (case x of None \<Rightarrow> ''null'' | Some s \<Rightarrow> s)"

definition show_count :: "nat option \<Rightarrow> string" where
  \<comment> \<open>a value that is a count or \<open>null\<close>, inside a template literal\<close>
  "show_count x = (case x of None \<Rightarrow> ''null'' | Some n \<Rightarrow> show_nat n)"

definition undefined_message_error :: string where
  \<comment> \<open>the \<open>message\<close> of the TypeError of \<open>choices[0].message\<close> when there is no choice\<close>
  "undefined_message_error = ''Cannot read properties of undefined (reading 'message')''"

definition null_trim_error :: string where
  \<comment> \<open>the \<open>message\<close> of the TypeError of \<open>content.trim()\<close> when the content is \<open>null\<close>\<close>
  "null_trim_error = ''Cannot read properties of null (reading 'trim')''"

section \<open>generateSQL\<close>

datatype gen_result =
    GenSql string  \<comment> \<open>\<open>{ sql, error: null }\<close>\<close>
  | GenError string  \<comment> \<open>\<open>{ sql: null, error }\<close>\<close>

fun gen_sql :: "gen_result \<Rightarrow> string option" where
  "gen_sql (GenSql s) = Some s"
| "gen_sql (GenError e) = None"

fun gen_error :: "gen_result \<Rightarrow> string option" where
  "gen_error (GenSql s) = None"
| "gen_error (GenError e) = Some e"

definition generation_request :: "string \<Rightarrow> string \<Rightarrow> string \<Rightarrow> string \<Rightarrow> llm_request" where
  \<comment> \<open>the argument of \<open>client.chat.completions.create\<close> in \<open>generateSQL\<close>\<close>
  "generation_request prompt schemaInfo chain model =
     \<lparr>req_model = model,
      req_messages =
        [(System, generation_systemMessage schemaInfo chain),
         (User, ''Generate PostgreSQL query for: '' @ prompt)],
      req_temperature = 1 / 10\<rparr>"

definition generateSQL ::
  "(llm_request \<Rightarrow> llm_reply) \<Rightarrow> string \<Rightarrow> string \<Rightarrow> string \<Rightarrow> string \<Rightarrow>
     ('n, 'o) event list \<times> gen_result" where
  "generateSQL client prompt schemaInfo chain model =
     (let request = generation_request prompt schemaInfo chain model in
      ([LlmCall request],
       case client request of
         LlmThrows m \<Rightarrow> GenError (''Error generating SQL: '' @ m)
       | LlmChoices [] \<Rightarrow> GenError (''Error generating SQL: '' @ undefined_message_error)
       | LlmChoices (None # _) \<Rightarrow> GenError (''Error generating SQL: '' @ null_trim_error)
       | LlmChoices (Some content # _) \<Rightarrow> GenSql (sanitize content)))"

section \<open>executeQuery\<close>

datatype ('n, 'o) query_result =
    QRows "('n, 'o) row list" "string list" "nat option"
      \<comment> \<open>\<open>{ rows, error: null, columnNames, rowCount }\<close>\<close>
  | QAffected "nat option" string
      \<comment> \<open>\<open>{ rows: [], error: null, affectedRows, message }\<close>\<close>
  | QError string
      \<comment> \<open>\<open>{ rows: null, error }\<close>\<close>

fun qr_rows :: "('n, 'o) query_result \<Rightarrow> ('n, 'o) row list option" where
  "qr_rows (QRows rows columnNames rowCount) = Some rows"
| "qr_rows (QAffected affectedRows message) = Some []"
| "qr_rows (QError e) = None"

fun qr_error :: "('n, 'o) query_result \<Rightarrow> string option" where
  "qr_error (QRows rows columnNames rowCount) = None"
| "qr_error (QAffected affectedRows message) = None"
| "qr_error (QError e) = Some e"

fun qr_columnNames :: "('n, 'o) query_result \<Rightarrow> string list option" where
  "qr_columnNames (QRows rows columnNames rowCount) = Some columnNames"
| "qr_columnNames (QAffected affectedRows message) = None"
| "qr_columnNames (QError e) = None"

definition executeQuery ::
  "(string \<Rightarrow> ('n, 'o) db_reply) \<Rightarrow> string \<Rightarrow> ('n, 'o) event list \<times> ('n, 'o) query_result" where
  "executeQuery client sql =
     ([DbQuery sql],
      case client sql of
        DbThrows m \<Rightarrow> QError m
      | DbResult (Some rows) fieldNames rowCount \<Rightarrow> QRows rows fieldNames rowCount
      | DbResult None fieldNames rowCount \<Rightarrow>
          QAffected rowCount (''Query executed successfully. Rows affected: '' @ show_count rowCount))"

section \<open>generateResponse\<close>

datatype resp_result =
    RespText "string option"  \<comment> \<open>\<open>{ response, error: null }\<close>; the content may be \<open>null\<close>\<close>
  | RespError string  \<comment> \<open>\<open>{ response: null, error }\<close>\<close>

definition resultSample :: "('n, 'o) runtime \<Rightarrow> ('n, 'o) query_result \<Rightarrow> string" where
  "resultSample rt results =
     (case qr_rows results of
        None \<Rightarrow> ''No results found''
      | Some rows \<Rightarrow>
          if 0 < length rows then JSON_stringify_rows rt (take 5 rows) else ''No results found'')"

definition sample_rowCount :: "('n, 'o) query_result \<Rightarrow> nat" where
  \<comment> \<open>\<open>rowCount\<close> of \<open>generateResponse\<close>\<close>
  "sample_rowCount results = (case qr_rows results of None \<Rightarrow> 0 | Some rows \<Rightarrow> length rows)"

definition colNames :: "('n, 'o) query_result \<Rightarrow> string" where
  "colNames results = (case qr_columnNames results of None \<Rightarrow> [] | Some cols \<Rightarrow> join '', '' cols)"

definition userMessage ::
  "('n, 'o) runtime \<Rightarrow> string \<Rightarrow> string \<Rightarrow> ('n, 'o) query_result \<Rightarrow> string" where
  \<open>userMessage rt prompt sql results =
     ''User question: '' @ prompt @ ''\<newline>''
     @ ''SQL query used: '' @ sql @ ''\<newline>''
     @ ''Number of rows returned: '' @ show_nat (sample_rowCount results) @ ''\<newline>''
     @ ''Column names: '' @ colNames results @ ''\<newline>''
     @ ''Sample of results (first 5 rows):\<newline>''
     @ resultSample rt results @ ''\<newline>''
     @ ''\<newline>''
     @ ''Please provide a natural language explanation of these results, focusing on insights that answer the user's question.''\<close>

definition summary_request ::
  "('n, 'o) runtime \<Rightarrow> string \<Rightarrow> string \<Rightarrow> ('n, 'o) query_result \<Rightarrow> string \<Rightarrow> llm_request" where
  \<comment> \<open>the argument of \<open>client.chat.completions.create\<close> in \<open>generateResponse\<close>\<close>
  "summary_request rt prompt sql results model =
     \<lparr>req_model = model,
      req_messages =
        [(System, summary_systemMessage), (User, userMessage rt prompt sql results)],
      req_temperature = 7 / 10\<rparr>"

definition generateResponse ::
  "(llm_request \<Rightarrow> llm_reply) \<Rightarrow> ('n, 'o) runtime \<Rightarrow> string \<Rightarrow> string \<Rightarrow>
     ('n, 'o) query_result \<Rightarrow> string \<Rightarrow> ('n, 'o) event list \<times> resp_result" where
  "generateResponse client rt prompt sql results model =
     (let request = summary_request rt prompt sql results model in
      ([LlmCall request],
       case client request of
         LlmThrows m \<Rightarrow> RespError (''Error generating response: '' @ m)
       | LlmChoices [] \<Rightarrow> RespError (''Error generating response: '' @ undefined_message_error)
       | LlmChoices (content # _) \<Rightarrow> RespText content))"

section \<open>exportToCSV\<close>

definition csv_filename :: "string \<Rightarrow> string" where
  \<comment> \<open>\<open>query_results_${timestamp}.csv\<close>, on the ISO timestamp; the code turns \<open>:\<close> and \<open>.\<close> into \<open>-\<close>\<close>
  "csv_filename timestamp =
     ''query_results_''
     @ map (\<lambda>c. if c = CHR '':'' \<or> c = CHR ''.'' then CHR ''-'' else c) timestamp
     @ ''.csv''"

definition exportToCSV ::
  "('n, 'o) world \<Rightarrow> ('n, 'o) row list option \<Rightarrow> string list \<Rightarrow> ('n, 'o) event list" where
  "exportToCSV w rows columnNames =
     (case rows of
        None \<Rightarrow> [ConsoleLog ''No data to export'']
      | Some rs \<Rightarrow>
          if rs = [] then [ConsoleLog ''No data to export'']
          else
            (let filename = csv_filename (now_iso w);
                 header = map (\<lambda>column. (column, column)) columnNames
             in CsvWriteRecords filename header rs #
                (case csv_write w filename header rs of
                   None \<Rightarrow> [ConsoleLog (''Results exported to '' @ filename)]
                 | Some m \<Rightarrow> [ConsoleError (''Failed to export results: '' @ m)])))"

section \<open>One turn of the prompt loop\<close>

definition errorType :: "string \<Rightarrow> string" where
  "errorType e =
     (if includes_str (toLowerCase e) ''syntax'' then ''Syntax error'' else ''Database error'')"

definition export_callback ::
  "('n, 'o) world \<Rightarrow> ('n, 'o) runtime \<Rightarrow> string \<Rightarrow> string \<Rightarrow> ('n, 'o) query_result \<Rightarrow>
     string list \<Rightarrow> string \<Rightarrow> ('n, 'o) event list" where
  \<comment> \<open>the callback of the export question, on the user's \<open>answer\<close>\<close>
  \<open>export_callback w rt prompt sql queryResult columnNames answer =
     (if toLowerCase answer = ''y'' then exportToCSV w (qr_rows queryResult) columnNames else [])
     @ [ConsoleLog ''Generating insights...'']
     @ (let (events, r) = generateResponse (llm w) rt prompt sql queryResult OPENAI_MODEL in
        events @
        (case r of
           RespError responseError \<Rightarrow>
             [ConsoleError (''Failed to generate insights: '' @ responseError)]
         | RespText response \<Rightarrow>
             [ConsoleLog ''\<newline>Insights'', ConsoleLog (show_null response)]))
     @ [PromptUser]\<close>

definition after_query ::
  "('n, 'o) world \<Rightarrow> ('n, 'o) runtime \<Rightarrow> string \<Rightarrow> string \<Rightarrow> ('n, 'o) query_result \<Rightarrow>
     ('n, 'o) event list" where
  \<comment> \<open>the turn from \<open>if (queryResult.error)\<close> on. An error that is the empty string is falsy,
      and \<open>rows\<close> is then \<open>null\<close>.\<close>
  "after_query w rt prompt sql queryResult =
     (case queryResult of
        QError e \<Rightarrow>
          if e \<noteq> [] then
            [ConsoleError (''Failed to execute query: '' @ e),
             ConsoleLog (''Error type: '' @ errorType e),
             PromptUser]
          else [ConsoleLog ''The query returned no results.'', PromptUser]
      | QAffected affectedRows message \<Rightarrow>
          [ConsoleLog ''The query returned no results.'', PromptUser]
      | QRows rows columnNames rowCount \<Rightarrow>
          if rows = [] then [ConsoleLog ''The query returned no results.'', PromptUser]
          else
            [ConsoleLog (''Query returned '' @ show_count rowCount @ '' rows.''),
             ConsoleLog ''Results preview:'',
             ConsoleLog (formatResultTable rt (Some rows) (Some columnNames)),
             ConsoleLog [],
             RlQuestion ''Would you like to export these results to CSV? (y/n): '']
            @ export_callback w rt prompt sql queryResult columnNames (export_answer w))"

definition turn ::
  "('n, 'o) world \<Rightarrow> ('n, 'o) runtime \<Rightarrow> string \<Rightarrow> string \<Rightarrow> ('n, 'o) event list" where
  \<comment> \<open>the callback of \<open>promptUser\<close>, on the line \<open>prompt\<close> the user typed; \<open>chain\<close> is the
      \<open>CHAIN\<close> of the environment. The error of \<open>generateSQL\<close> is never the empty string.\<close>
  \<open>turn w rt chain prompt =
     (if toLowerCase prompt = ''exit'' \<or> toLowerCase prompt = ''quit'' then
        (case db_end w of
           None \<Rightarrow>
             [DbEnd, RlClose,
              ConsoleLog ''\<newline>Thank you for using Blockchain Database Chat CLI!'']
         | Some (message, stack) \<Rightarrow>
             [DbEnd, ConsoleError (''An error occurred: '' @ message), ConsoleError stack,
              PromptUser])
      else if trim prompt = [] then [PromptUser]
      else
        ConsoleLog ''\<newline>Generating SQL query...'' #
        (let (events, g) = generateSQL (llm w) prompt SCHEMA_INFO chain OPENAI_MODEL in
         events @
         (case g of
            GenError sqlError \<Rightarrow>
              [ConsoleError (''Failed to generate SQL: '' @ sqlError), PromptUser]
          | GenSql sql \<Rightarrow>
              [ConsoleLog ''Generated SQL:'', ConsoleLog sql, ConsoleLog [],
               ConsoleLog ''Executing query...'']
              @ (let (events', queryResult) = executeQuery (db_query w) sql in
                 events' @ after_query w rt prompt sql queryResult))))\<close>

section \<open>A concrete world\<close>

text \<open>
  For the examples, numbers are integers, an object is given by its JSON text, and the
  library functions are small stand-ins.
\<close>

definition example_runtime :: "(int, string) runtime" where
  \<open>example_runtime =
     \<lparr>inherited =
        (\<lambda>name. if name = ''constructor'' then JFun ''function Object() { [native code] }''
                else if name = ''toString'' then JFun ''function toString() { [native code] }''
                else if name = ''__proto__'' then JObj ''{}''
                else JUndefined),
      number_toString = (\<lambda>n. if n < 0 then ''-'' @ show_nat (nat (- n)) else show_nat (nat n)),
      object_toString = (\<lambda>ob. ''[object Object]''),
      JSON_stringify = (\<lambda>ob. ob),
      JSON_stringify_rows =
        (\<lambda>rows. ''['' @ join '','' (map (\<lambda>row. ''{'' @ join '','' (map fst row) @ ''}'') rows) @ '']''),
      table_toString = (\<lambda>head rows. join ''\<newline>'' (map (join '' | '') (head # rows)))\<rparr>\<close>

definition example_rows :: "(int, string) row list" where
  \<open>example_rows =
     [[(''hash'', JStr ''0x9f2c4b7a1d3e5f60718293a4b5c6d7e8f9010203''),
       (''details'', JObj ''{"pools":["0x1111","0x2222","0x3333"],"count":3}'')],
      [(''hash'', JStr ''0xabc''), (''details'', JNull)],
      [(''hash'', JStr ''0xdef''), (''details'', JNum 12)]]\<close>

definition twelve_rows :: "(int, string) row list" where
  "twelve_rows = map (\<lambda>n. [(''number'', JNum n)]) [0, 1, 2, 3, 4, 5, 6, 7, 8, 9, 10, 11]"

definition example_world :: "(int, string) world" where
  \<comment> \<open>the model answers the generation call (temperature 0.1) with a fenced query and fails
      the summary call; the database returns \<open>example_rows\<close>\<close>
  \<open>example_world =
     \<lparr>llm = (\<lambda>r. if req_temperature r = 1 / 10
                 then LlmChoices [Some ''```sql SELECT hash, details FROM blocks_base LIMIT 3; ```'']
                 else LlmThrows ''Request timed out.''),
      db_query = (\<lambda>q. DbResult (Some example_rows) [''hash'', ''details''] (Some 3)),
      db_end = None,
      export_answer = ''n'',
      now_iso = ''2025-01-02T03:04:05.678Z'',
      csv_write = (\<lambda>path header rows. None)\<rparr>\<close>

section \<open>Fences in the sanitized query\<close>





lemma sublist_trim: "sublist (trim s) s"
proof -
  have "prefix (rev (dropWhile is_js_space (rev t))) t" for t
    using suffix_dropWhile [of is_js_space "rev t"] by (simp add: suffix_to_prefix)
  then have "sublist (trim s) (dropWhile is_js_space s)"
    unfolding trim_def by (rule prefix_imp_sublist)
  moreover have "sublist (dropWhile is_js_space s) s" by simp
  ultimately show ?thesis by (rule sublist_order.order_trans)
qed

lemma includes_trim: "includes_str (trim s) p \<Longrightarrow> includes_str s p"
  unfolding includes_str_def using sublist_trim by (rule sublist_order.order_trans [rotated])

















section \<open>The generation prompt\<close>

text \<open>
  C7. For every chain name \<open>p\<close>, \<open>generateSQL\<close> makes one call, whose first message is the
  system message, and this message contains the rule
  \<open>2. Use table names with the suffix '_p' unless referring to the 'users' table\<close>:
  the table names are bound to the suffix \<open>_p\<close>, except for the table \<open>users\<close>.
\<close>

theorem generation_prompt_suffix_rule:
  \<open>\<exists>m rest.
     fst (generateSQL client prompt schemaInfo p model :: ('n, 'o) event list \<times> gen_result) =
       [LlmCall (generation_request prompt schemaInfo p model)] \<and>
     req_messages (generation_request prompt schemaInfo p model) = (System, m) # rest \<and>
     includes_str m
       (''2. Use table names with the suffix '_'' @ p @ ''' unless referring to the 'users' table'')\<close>
proof -
  let ?m = "generation_systemMessage schemaInfo p"
  have "\<exists>pre post. ?m = pre @ suffix_rule p @ post"
    unfolding generation_systemMessage_def by (metis append.assoc)
  then have "includes_str ?m (suffix_rule p)"
    unfolding includes_str_def sublist_def .
  then show ?thesis
    by (simp add: generateSQL_def generation_request_def suffix_rule_def Let_def)
qed

theorem generation_prompt_suffix_rule_base:
  \<open>includes_str (generation_systemMessage SCHEMA_INFO ''base'')
     ''2. Use table names with the suffix '_base' unless referring to the 'users' table''\<close>
  using generation_prompt_suffix_rule [of "\<lambda>r. LlmThrows []" "[]" SCHEMA_INFO "''base''" "[]"]
  by (elim exE conjE) (simp add: generation_request_def)

section \<open>The result table\<close>

lemma formatResultTable_rows:
  "rows \<noteq> [] \<Longrightarrow>
     formatResultTable rt (Some rows) (Some cols) = table_toString rt cols (table_rows rt rows cols)"
  by (simp add: formatResultTable_def)

lemma length_table_rows: "length (table_rows rt rows cols) = min 10 (length rows)"
  by (simp add: table_rows_def min.commute)

lemma table_rows_row:
  "i < min 10 (length rows) \<Longrightarrow>
     table_rows rt rows cols ! i = map (\<lambda>col. format_cell rt (get_col rt (rows ! i) col)) cols"
  by (simp add: table_rows_def)

lemma table_rows_cell:
  "i < min 10 (length rows) \<Longrightarrow> j < length cols \<Longrightarrow>
     table_rows rt rows cols ! i ! j = format_cell rt (get_col rt (rows ! i) (cols ! j))"
  by (simp add: table_rows_row)

lemma table_rows_take: "table_rows rt (take 10 rows) cols = table_rows rt rows cols"
  by (simp add: table_rows_def)

lemma example_rows_nonempty: "example_rows \<noteq> []"
  by (simp add: example_rows_def)

text \<open>
  C8. In the table that \<open>formatResultTable\<close> hands to the table library, the cell of a
  displayed row (one of the first ten) and a column is \<open>NULL\<close> when the value is \<open>null\<close>;
  when the value is a string of more than 30 characters it is the first 30 characters followed
  by \<open>...\<close>; a string of 30 characters or fewer is the cell as it is.
\<close>

theorem table_cell_null_and_long_string:
  assumes "i < min 10 (length rows)" and "j < length cols"
  shows "formatResultTable rt (Some rows) (Some cols) =
           table_toString rt cols (table_rows rt rows cols) \<and>
         (get_col rt (rows ! i) (cols ! j) = JNull \<longrightarrow> table_rows rt rows cols ! i ! j = ''NULL'') \<and>
         (get_col rt (rows ! i) (cols ! j) = JStr s \<and> 30 < length s \<longrightarrow>
            table_rows rt rows cols ! i ! j = take 30 s @ ''...'') \<and>
         (get_col rt (rows ! i) (cols ! j) = JStr s \<and> length s \<le> 30 \<longrightarrow>
            table_rows rt rows cols ! i ! j = s)"
proof -
  from assms(1) have "rows \<noteq> []" by auto
  then show ?thesis
    using assms by (simp add: formatResultTable_rows table_rows_cell)
qed

theorem table_cell_null_and_long_string_witness:
  \<open>table_rows example_runtime example_rows [''hash'', ''details''] ! 1 ! 1 = ''NULL'' \<and>
   table_rows example_runtime example_rows [''hash'', ''details''] ! 0 ! 0 =
     ''0x9f2c4b7a1d3e5f60718293a4b5c6...'' \<and>
   table_rows example_runtime example_rows [''hash'', ''details''] ! 1 ! 0 = ''0xabc''\<close>
proof -
  let ?cols = "[''hash'', ''details'']"
  have i0: "0 < min 10 (length example_rows)" and i1: "1 < min 10 (length example_rows)"
    by (simp_all add: example_rows_def)
  have j0: "0 < length ?cols" and j1: "1 < length ?cols" by simp_all
  have v11: "get_col example_runtime (example_rows ! 1) (?cols ! 1) = JNull" by code_simp
  have v00: "get_col example_runtime (example_rows ! 0) (?cols ! 0) =
      JStr ''0x9f2c4b7a1d3e5f60718293a4b5c6d7e8f9010203'' \<and>
      30 < length ''0x9f2c4b7a1d3e5f60718293a4b5c6d7e8f9010203''" by code_simp
  have v10: "get_col example_runtime (example_rows ! 1) (?cols ! 0) = JStr ''0xabc'' \<and> length ''0xabc'' \<le> 30"
    by code_simp
  from table_cell_null_and_long_string [OF i1 j1, where rt = example_runtime] v11
  have a: "table_rows example_runtime example_rows ?cols ! 1 ! 1 = ''NULL''" by blast
  from table_cell_null_and_long_string [OF i0 j0, where rt = example_runtime
      and s = "''0x9f2c4b7a1d3e5f60718293a4b5c6d7e8f9010203''"] v00
  have b: "table_rows example_runtime example_rows ?cols ! 0 ! 0 =
      take 30 ''0x9f2c4b7a1d3e5f60718293a4b5c6d7e8f9010203'' @ ''...''" by blast
  from table_cell_null_and_long_string [OF i1 j0, where rt = example_runtime and s = "''0xabc''"] v10
  have c: "table_rows example_runtime example_rows ?cols ! 1 ! 0 = ''0xabc''" by blast
  from a b c show ?thesis by simp
qed

text \<open>
  C9. For a result that is not empty, the table that \<open>formatResultTable\<close> hands to the table
  library is made of the renderings of the first ten rows of the result, in the order of the
  result, and of nothing else: formatting the result and formatting its first ten rows give
  the same text. The table has as many rows as the result, up to ten, and its row \<open>i\<close> is the
  rendering of row \<open>i\<close> of the result. The \<open>rowCount\<close> that the turn reports comes from the
  driver and plays no part in the table.
\<close>

theorem table_first_ten_rows:
  "(rows \<noteq> [] \<longrightarrow>
      formatResultTable rt (Some rows) (Some cols) =
        table_toString rt cols (table_rows rt rows cols) \<and>
      formatResultTable rt (Some rows) (Some cols) =
        table_toString rt cols
          (map (\<lambda>row. map (\<lambda>col. format_cell rt (get_col rt row col)) cols) (take 10 rows))) \<and>
   formatResultTable rt (Some rows) columnNames =
     formatResultTable rt (Some (take 10 rows)) columnNames \<and>
   length (table_rows rt rows cols) = min 10 (length rows) \<and>
   (\<forall>i < min 10 (length rows).
      table_rows rt rows cols ! i = map (\<lambda>col. format_cell rt (get_col rt (rows ! i) col)) cols)"
proof -
  have "formatResultTable rt (Some rows) columnNames =
     formatResultTable rt (Some (take 10 rows)) columnNames"
    by (cases columnNames) (simp_all add: formatResultTable_def table_rows_take)
  moreover have "formatResultTable rt (Some rows) (Some cols) =
        table_toString rt cols
          (map (\<lambda>row. map (\<lambda>col. format_cell rt (get_col rt row col)) cols) (take 10 rows))"
    if "rows \<noteq> []"
    using that by (simp add: formatResultTable_rows table_rows_def)
  ultimately show ?thesis
    by (simp add: formatResultTable_rows length_table_rows table_rows_row)
qed

theorem table_first_ten_rows_witness:
  \<open>length twelve_rows = 12 \<and>
   formatResultTable example_runtime (Some twelve_rows) (Some [''number'']) =
     table_toString example_runtime [''number'']
       [[''0''], [''1''], [''2''], [''3''], [''4''], [''5''], [''6''], [''7''], [''8''], [''9'']] \<and>
   formatResultTable example_runtime (Some twelve_rows) (Some [''number'']) =
     formatResultTable example_runtime (Some (take 10 twelve_rows)) (Some [''number'']) \<and>
   length (table_rows example_runtime twelve_rows [''number'']) = 10 \<and>
   table_rows example_runtime twelve_rows [''number''] ! 9 = [''9'']\<close>
proof -
  have l: "length twelve_rows = 12" by (simp add: twelve_rows_def)
  then have n: "twelve_rows \<noteq> []" by auto
  have c: "map (\<lambda>col. format_cell example_runtime (get_col example_runtime (twelve_rows ! 9) col))
      [''number''] = [''9'']" by code_simp
  have m: "map (\<lambda>row. map (\<lambda>col. format_cell example_runtime (get_col example_runtime row col))
      [''number'']) (take 10 twelve_rows) =
      [[''0''], [''1''], [''2''], [''3''], [''4''], [''5''], [''6''], [''7''], [''8''], [''9'']]"
    by code_simp
  from table_first_ten_rows [where rt = example_runtime and rows = twelve_rows
      and columnNames = "Some [''number'']" and cols = "[''number'']"] n
  have "formatResultTable example_runtime (Some twelve_rows) (Some [''number'']) =
        table_toString example_runtime [''number'']
          (map (\<lambda>row. map (\<lambda>col. format_cell example_runtime (get_col example_runtime row col))
             [''number'']) (take 10 twelve_rows))"
    and "formatResultTable example_runtime (Some twelve_rows) (Some [''number'']) =
      formatResultTable example_runtime (Some (take 10 twelve_rows)) (Some [''number''])"
    and "length (table_rows example_runtime twelve_rows [''number'']) = min 10 (length twelve_rows)"
    and "9 < min 10 (length twelve_rows) \<longrightarrow>
      table_rows example_runtime twelve_rows [''number''] ! 9 =
      map (\<lambda>col. format_cell example_runtime (get_col example_runtime (twelve_rows ! 9) col))
        [''number'']"
    by blast+
  with l c m show ?thesis by simp
qed

text \<open>
  C10. For a displayed row and a column whose value is an object (so not \<open>null\<close>), the cell
  is the whole of \<open>JSON.stringify(value)\<close>, whatever its length: nothing is cut and no \<open>...\<close>
  is added.
\<close>

theorem table_cell_object:
  assumes "i < min 10 (length rows)" and "j < length cols"
    and "get_col rt (rows ! i) (cols ! j) = JObj ob"
  shows "formatResultTable rt (Some rows) (Some cols) =
           table_toString rt cols (table_rows rt rows cols) \<and>
         table_rows rt rows cols ! i ! j = JSON_stringify rt ob"
proof -
  from assms(1) have "rows \<noteq> []" by auto
  then show ?thesis
    using assms by (simp add: formatResultTable_rows table_rows_cell)
qed

theorem table_cell_object_witness:
  \<open>table_rows example_runtime example_rows [''hash'', ''details''] ! 0 ! 1 =
     ''{"pools":["0x1111","0x2222","0x3333"],"count":3}'' \<and>
   length (table_rows example_runtime example_rows [''hash'', ''details''] ! 0 ! 1) = 48\<close>
proof -
  let ?cols = "[''hash'', ''details'']"
  let ?ob = \<open>''{"pools":["0x1111","0x2222","0x3333"],"count":3}''\<close>
  have i: "0 < min 10 (length example_rows)" by (simp add: example_rows_def)
  have j: "1 < length ?cols" by simp
  have v: "get_col example_runtime (example_rows ! 0) (?cols ! 1) = JObj ?ob" by code_simp
  have s: "JSON_stringify example_runtime ?ob = ?ob" by (simp add: example_runtime_def)
  from table_cell_object [OF i j v] s
  show ?thesis by simp
qed

section \<open>The turn\<close>

lemma llm_calls_append: "llm_calls (xs @ ys) = llm_calls xs @ llm_calls ys"
  by (induction xs rule: llm_calls.induct) simp_all

lemma db_queries_append: "db_queries (xs @ ys) = db_queries xs @ db_queries ys"
  by (induction xs rule: db_queries.induct) simp_all

lemma csv_files_append: "csv_files (xs @ ys) = csv_files xs @ csv_files ys"
  by (induction xs rule: csv_files.induct) simp_all

lemma llm_calls_exportToCSV: "llm_calls (exportToCSV w rows cols) = []"
  by (simp add: exportToCSV_def Let_def split: option.splits)

lemma exportToCSV_no_rows:
  "exportToCSV w None cols = [ConsoleLog ''No data to export'']"
  "exportToCSV w (Some []) cols = [ConsoleLog ''No data to export'']"
  by (simp_all add: exportToCSV_def)

lemma generateSQL_error_nonempty:
  "snd (generateSQL client prompt schemaInfo chain model :: ('n, 'o) event list \<times> gen_result) =
     GenError e \<Longrightarrow> e \<noteq> []"
  by (auto simp: generateSQL_def Let_def split: llm_reply.splits list.splits option.splits)

lemma generateResponse_error_nonempty:
  "snd (generateResponse client rt prompt sql results model :: ('n, 'o) event list \<times> resp_result) =
     RespError e \<Longrightarrow> e \<noteq> []"
  by (auto simp: generateResponse_def Let_def split: llm_reply.splits list.splits)

lemma turn_generation_failed:
  assumes "toLowerCase prompt \<noteq> ''exit''" "toLowerCase prompt \<noteq> ''quit''" "trim prompt \<noteq> []"
    and "snd (generateSQL (llm w) prompt SCHEMA_INFO chain OPENAI_MODEL
           :: ('n, 'o) event list \<times> gen_result) = GenError e"
  shows "turn w rt chain prompt =
     [ConsoleLog ''\<newline>Generating SQL query...'',
      LlmCall (generation_request prompt SCHEMA_INFO chain OPENAI_MODEL),
      ConsoleError (''Failed to generate SQL: '' @ e),
      PromptUser :: ('n, 'o) event]"
  using assms by (simp add: turn_def generateSQL_def Let_def)

lemma turn_generated:
  assumes "toLowerCase prompt \<noteq> ''exit''" "toLowerCase prompt \<noteq> ''quit''" "trim prompt \<noteq> []"
    and "llm w (generation_request prompt SCHEMA_INFO chain OPENAI_MODEL) =
           LlmChoices (Some content # others)"
  shows "turn w rt chain prompt =
     [ConsoleLog ''\<newline>Generating SQL query...'',
      LlmCall (generation_request prompt SCHEMA_INFO chain OPENAI_MODEL),
      ConsoleLog ''Generated SQL:'',
      ConsoleLog (sanitize content),
      ConsoleLog [],
      ConsoleLog ''Executing query...'',
      DbQuery (sanitize content)]
     @ after_query w rt prompt (sanitize content)
         (snd (executeQuery (db_query w) (sanitize content)))"
  using assms by (simp add: turn_def generateSQL_def executeQuery_def Let_def)

lemma after_query_rows:
  assumes "rows \<noteq> []"
  shows "after_query w rt prompt sql (QRows rows cols rc) =
     [ConsoleLog (''Query returned '' @ show_count rc @ '' rows.''),
      ConsoleLog ''Results preview:'',
      ConsoleLog (formatResultTable rt (Some rows) (Some cols)),
      ConsoleLog [],
      RlQuestion ''Would you like to export these results to CSV? (y/n): '']
     @ (if toLowerCase (export_answer w) = ''y'' then exportToCSV w (Some rows) cols else [])
     @ [ConsoleLog ''Generating insights...'',
        LlmCall (summary_request rt prompt sql (QRows rows cols rc) OPENAI_MODEL)]
     @ (case snd (generateResponse (llm w) rt prompt sql (QRows rows cols rc) OPENAI_MODEL
                   :: ('n, 'o) event list \<times> resp_result) of
          RespError responseError \<Rightarrow>
            [ConsoleError (''Failed to generate insights: '' @ responseError)]
        | RespText response \<Rightarrow>
            [ConsoleLog ''\<newline>Insights'', ConsoleLog (show_null response)])
     @ [PromptUser]"
  using assms by (simp add: after_query_def export_callback_def generateResponse_def Let_def)

lemma example_prompt:
  "toLowerCase ''How many blocks?'' \<noteq> ''exit''"
  "toLowerCase ''How many blocks?'' \<noteq> ''quit''"
  "trim ''How many blocks?'' \<noteq> []"
  by code_simp+

lemma example_generation:
  \<open>llm example_world (generation_request prompt schemaInfo chain model) =
     LlmChoices [Some ''```sql SELECT hash, details FROM blocks_base LIMIT 3; ```'']\<close>
  by (simp add: example_world_def generation_request_def)

lemma example_sanitize:
  \<open>sanitize ''```sql SELECT hash, details FROM blocks_base LIMIT 3; ```'' =
     ''SELECT hash, details FROM blocks_base LIMIT 3;''\<close>
  by code_simp

lemma example_database:
  "db_query example_world q = DbResult (Some example_rows) [''hash'', ''details''] (Some 3)"
  by (simp add: example_world_def)

text \<open>
  C5, as stated, fails when the reply of the model has a content that is the empty string:
  nothing was returned, yet \<open>generateSQL\<close> returns \<open>sql = ''\<close> with \<open>error = null\<close>, and the turn
  goes on and sends the empty text to the database.
\<close>

theorem empty_content_is_not_a_failure:
  \<open>gen_sql (snd (generateSQL (\<lambda>r. LlmChoices [Some []])
       ''How many blocks?'' SCHEMA_INFO ''base'' OPENAI_MODEL
       :: (int, string) event list \<times> gen_result)) = Some [] \<and>
   gen_error (snd (generateSQL (\<lambda>r. LlmChoices [Some []])
       ''How many blocks?'' SCHEMA_INFO ''base'' OPENAI_MODEL
       :: (int, string) event list \<times> gen_result)) = None \<and>
   take 7 (turn (example_world\<lparr>llm := \<lambda>r. LlmChoices [Some []]\<rparr>)
       example_runtime ''base'' ''How many blocks?'') =
     [ConsoleLog ''\<newline>Generating SQL query...'',
      LlmCall (generation_request ''How many blocks?'' SCHEMA_INFO ''base'' OPENAI_MODEL),
      ConsoleLog ''Generated SQL:'',
      ConsoleLog [],
      ConsoleLog [],
      ConsoleLog ''Executing query...'',
      DbQuery []] \<and>
   db_queries (turn (example_world\<lparr>llm := \<lambda>r. LlmChoices [Some []]\<rparr>)
       example_runtime ''base'' ''How many blocks?'') \<noteq> []\<close>
proof -
  let ?w = "example_world\<lparr>llm := \<lambda>r. LlmChoices [Some []]\<rparr>"
  have s: "sanitize [] = []" by code_simp
  have g: "llm ?w (generation_request ''How many blocks?'' SCHEMA_INFO ''base'' OPENAI_MODEL) =
      LlmChoices (Some [] # [])" by simp
  show ?thesis
    unfolding turn_generated [OF example_prompt g] s
    by (simp add: generateSQL_def Let_def s)
qed

text \<open>
  C5, amended. \<open>generateSQL\<close> returns \<open>sql = null\<close> with an error exactly when the call to the
  model rejects or its reply carries no content value (no first choice, or a first choice whose
  content is \<open>null\<close>). A content that is a string, even the empty one, is a success, whose \<open>sql\<close>
  is the sanitized content. When the call rejects with message \<open>m\<close> the error is
  \<open>Error generating SQL: m\<close>. The model is called once, whatever the reply. In a turn on a
  question, a failed generation is reported, the database is not queried and the loop asks for
  the next question.
\<close>

theorem generation_failure_aborts_turn:
  fixes w :: "('n, 'o) world"
  assumes "reply = client (generation_request prompt schemaInfo chain model)"
    and "r = (generateSQL client prompt schemaInfo chain model :: ('n, 'o) event list \<times> gen_result)"
  shows "((gen_sql (snd r) = None \<and> gen_error (snd r) \<noteq> None) \<longleftrightarrow>
            (case reply of
               LlmThrows m \<Rightarrow> True
             | LlmChoices [] \<Rightarrow> True
             | LlmChoices (None # others) \<Rightarrow> True
             | LlmChoices (Some content # others) \<Rightarrow> False)) \<and>
         (reply = LlmThrows m \<longrightarrow> gen_error (snd r) = Some (''Error generating SQL: '' @ m)) \<and>
         (reply = LlmChoices (Some c # cs) \<longrightarrow> snd r = GenSql (sanitize c)) \<and>
         fst r = [LlmCall (generation_request prompt schemaInfo chain model)] \<and>
         (toLowerCase prompt \<noteq> ''exit'' \<and> toLowerCase prompt \<noteq> ''quit'' \<and> trim prompt \<noteq> [] \<and>
          gen_error (snd (generateSQL (llm w) prompt SCHEMA_INFO chain OPENAI_MODEL
            :: ('n, 'o) event list \<times> gen_result)) = Some e \<longrightarrow>
            turn w rt chain prompt =
              [ConsoleLog ''\<newline>Generating SQL query...'',
               LlmCall (generation_request prompt SCHEMA_INFO chain OPENAI_MODEL),
               ConsoleError (''Failed to generate SQL: '' @ e),
               PromptUser] \<and>
            db_queries (turn w rt chain prompt) = [])"
proof (intro conjI impI)
  show "(gen_sql (snd r) = None \<and> gen_error (snd r) \<noteq> None) \<longleftrightarrow>
            (case reply of
               LlmThrows m \<Rightarrow> True
             | LlmChoices [] \<Rightarrow> True
             | LlmChoices (None # others) \<Rightarrow> True
             | LlmChoices (Some content # others) \<Rightarrow> False)"
    unfolding assms
    by (simp add: generateSQL_def Let_def split: llm_reply.splits list.splits option.splits)
  show "gen_error (snd r) = Some (''Error generating SQL: '' @ m)" if "reply = LlmThrows m"
    using that unfolding assms by (simp add: generateSQL_def Let_def)
  show "snd r = GenSql (sanitize c)" if "reply = LlmChoices (Some c # cs)"
    using that unfolding assms by (simp add: generateSQL_def Let_def)
  show "fst r = [LlmCall (generation_request prompt schemaInfo chain model)]"
    unfolding assms by (simp add: generateSQL_def Let_def)
next
  assume h: "toLowerCase prompt \<noteq> ''exit'' \<and> toLowerCase prompt \<noteq> ''quit'' \<and> trim prompt \<noteq> [] \<and>
          gen_error (snd (generateSQL (llm w) prompt SCHEMA_INFO chain OPENAI_MODEL
            :: ('n, 'o) event list \<times> gen_result)) = Some e"
  then have "snd (generateSQL (llm w) prompt SCHEMA_INFO chain OPENAI_MODEL
           :: ('n, 'o) event list \<times> gen_result) = GenError e"
    by (cases "snd (generateSQL (llm w) prompt SCHEMA_INFO chain OPENAI_MODEL
           :: ('n, 'o) event list \<times> gen_result)") simp_all
  with h have t: "turn w rt chain prompt =
              [ConsoleLog ''\<newline>Generating SQL query...'',
               LlmCall (generation_request prompt SCHEMA_INFO chain OPENAI_MODEL),
               ConsoleError (''Failed to generate SQL: '' @ e),
               PromptUser]"
    by (intro turn_generation_failed) simp_all
  then show "turn w rt chain prompt =
              [ConsoleLog ''\<newline>Generating SQL query...'',
               LlmCall (generation_request prompt SCHEMA_INFO chain OPENAI_MODEL),
               ConsoleError (''Failed to generate SQL: '' @ e),
               PromptUser]" .
  from t show "db_queries (turn w rt chain prompt) = []" by simp
qed

theorem generation_failure_aborts_turn_witness:
  \<open>gen_sql (snd (generateSQL (\<lambda>r. LlmThrows ''401 Incorrect API key provided'')
       ''How many blocks?'' SCHEMA_INFO ''base'' OPENAI_MODEL
       :: (int, string) event list \<times> gen_result)) = None \<and>
   gen_error (snd (generateSQL (\<lambda>r. LlmThrows ''401 Incorrect API key provided'')
       ''How many blocks?'' SCHEMA_INFO ''base'' OPENAI_MODEL
       :: (int, string) event list \<times> gen_result)) =
     Some ''Error generating SQL: 401 Incorrect API key provided'' \<and>
   turn (example_world\<lparr>llm := \<lambda>r. LlmThrows ''401 Incorrect API key provided''\<rparr>)
       example_runtime ''base'' ''How many blocks?'' =
     [ConsoleLog ''\<newline>Generating SQL query...'',
      LlmCall (generation_request ''How many blocks?'' SCHEMA_INFO ''base'' OPENAI_MODEL),
      ConsoleError ''Failed to generate SQL: Error generating SQL: 401 Incorrect API key provided'',
      PromptUser] \<and>
   db_queries (turn (example_world\<lparr>llm := \<lambda>r. LlmThrows ''401 Incorrect API key provided''\<rparr>)
       example_runtime ''base'' ''How many blocks?'') = [] \<and>
   gen_sql (snd (generateSQL (\<lambda>r. LlmChoices [])
       ''How many blocks?'' SCHEMA_INFO ''base'' OPENAI_MODEL
       :: (int, string) event list \<times> gen_result)) = None \<and>
   gen_error (snd (generateSQL (\<lambda>r. LlmChoices [])
       ''How many blocks?'' SCHEMA_INFO ''base'' OPENAI_MODEL
       :: (int, string) event list \<times> gen_result)) \<noteq> None \<and>
   gen_sql (snd (generateSQL (\<lambda>r. LlmChoices [None])
       ''How many blocks?'' SCHEMA_INFO ''base'' OPENAI_MODEL
       :: (int, string) event list \<times> gen_result)) = None \<and>
   gen_error (snd (generateSQL (\<lambda>r. LlmChoices [None])
       ''How many blocks?'' SCHEMA_INFO ''base'' OPENAI_MODEL
       :: (int, string) event list \<times> gen_result)) \<noteq> None \<and>
   snd (generateSQL (\<lambda>r. LlmChoices [Some ''```sql SELECT 1; ```''])
       ''How many blocks?'' SCHEMA_INFO ''base'' OPENAI_MODEL
       :: (int, string) event list \<times> gen_result) = GenSql ''SELECT 1;''\<close>
proof -
  let ?m = "''401 Incorrect API key provided''"
  let ?w = "example_world\<lparr>llm := \<lambda>r. LlmThrows ?m\<rparr>"
  let ?r = "generateSQL (\<lambda>r. LlmThrows ?m) ''How many blocks?'' SCHEMA_INFO ''base'' OPENAI_MODEL
       :: (int, string) event list \<times> gen_result"
  note t = generation_failure_aborts_turn [OF refl refl,
      where client = "\<lambda>r. LlmThrows ?m" and prompt = "''How many blocks?''"
        and schemaInfo = SCHEMA_INFO and chain = "''base''" and model = OPENAI_MODEL
        and w = ?w and rt = example_runtime and m = ?m
        and e = "''Error generating SQL: '' @ ?m"]
  from t have a: "gen_sql (snd ?r) = None" and b: "gen_error (snd ?r) = Some (''Error generating SQL: '' @ ?m)"
    by simp_all
  have l: "llm ?w = (\<lambda>r. LlmThrows ?m)" by simp
  from t b example_prompt
  have c: "turn ?w example_runtime ''base'' ''How many blocks?'' =
     [ConsoleLog ''\<newline>Generating SQL query...'',
      LlmCall (generation_request ''How many blocks?'' SCHEMA_INFO ''base'' OPENAI_MODEL),
      ConsoleError (''Failed to generate SQL: '' @ ''Error generating SQL: '' @ ?m),
      PromptUser] \<and>
     db_queries (turn ?w example_runtime ''base'' ''How many blocks?'') = []"
    unfolding l by blast
  let ?r0 = "generateSQL (\<lambda>r. LlmChoices []) ''How many blocks?'' SCHEMA_INFO ''base''
       OPENAI_MODEL :: (int, string) event list \<times> gen_result"
  from generation_failure_aborts_turn [OF refl refl,
      where client = "\<lambda>r. LlmChoices []" and prompt = "''How many blocks?''"
        and schemaInfo = SCHEMA_INFO and chain = "''base''" and model = OPENAI_MODEL
        and w = example_world and rt = example_runtime]
  have d: "gen_sql (snd ?r0) = None \<and> gen_error (snd ?r0) \<noteq> None" by simp
  let ?r1 = "generateSQL (\<lambda>r. LlmChoices [None]) ''How many blocks?'' SCHEMA_INFO ''base''
       OPENAI_MODEL :: (int, string) event list \<times> gen_result"
  from generation_failure_aborts_turn [OF refl refl,
      where client = "\<lambda>r. LlmChoices [None]" and prompt = "''How many blocks?''"
        and schemaInfo = SCHEMA_INFO and chain = "''base''" and model = OPENAI_MODEL
        and w = example_world and rt = example_runtime]
  have e: "gen_sql (snd ?r1) = None \<and> gen_error (snd ?r1) \<noteq> None" by simp
  have s: "sanitize ''```sql SELECT 1; ```'' = ''SELECT 1;''" by code_simp
  let ?r2 = "generateSQL (\<lambda>r. LlmChoices [Some ''```sql SELECT 1; ```''])
       ''How many blocks?'' SCHEMA_INFO ''base'' OPENAI_MODEL
       :: (int, string) event list \<times> gen_result"
  from generation_failure_aborts_turn [OF refl refl,
      where client = "\<lambda>r. LlmChoices [Some ''```sql SELECT 1; ```'']"
        and prompt = "''How many blocks?''"
        and schemaInfo = SCHEMA_INFO and chain = "''base''" and model = OPENAI_MODEL
        and w = example_world and rt = example_runtime
        and c = "''```sql SELECT 1; ```''" and cs = "[]"]
  have f: "snd ?r2 = GenSql (sanitize ''```sql SELECT 1; ```'')" by simp
  from a b c d e f show ?thesis unfolding s by simp
qed

text \<open>
  C2. The code misses the classification when the driver rejects the query with an empty
  message. \<open>executeQuery\<close> catches the rejection and returns \<open>rows = null\<close> with the message as
  \<open>error\<close>, but the turn tests \<open>queryResult.error\<close> for truth and the empty string is falsy: no
  error type is printed, neither \<open>Syntax error\<close> nor \<open>Database error\<close>, and the failed execution
  is reported as a query that returned no results. The errors of \<open>generateSQL\<close> and
  \<open>generateResponse\<close> carry a prefix and are never empty, so the same test is right for them.
\<close>

theorem empty_error_message_not_classified:
  \<open>snd (executeQuery (\<lambda>q. DbThrows []) ''SELECT hash, details FROM blocks_base LIMIT 3;''
         :: (int, string) event list \<times> (int, string) query_result) = QError [] \<and>
   turn (example_world\<lparr>db_query := \<lambda>q. DbThrows []\<rparr>) example_runtime ''base'' ''How many blocks?'' =
     [ConsoleLog ''\<newline>Generating SQL query...'',
      LlmCall (generation_request ''How many blocks?'' SCHEMA_INFO ''base'' OPENAI_MODEL),
      ConsoleLog ''Generated SQL:'',
      ConsoleLog ''SELECT hash, details FROM blocks_base LIMIT 3;'',
      ConsoleLog [],
      ConsoleLog ''Executing query...'',
      DbQuery ''SELECT hash, details FROM blocks_base LIMIT 3;'',
      ConsoleLog ''The query returned no results.'',
      PromptUser]\<close>
proof -
  let ?w = "example_world\<lparr>db_query := \<lambda>q. DbThrows []\<rparr>"
  have g: \<open>llm ?w (generation_request ''How many blocks?'' SCHEMA_INFO ''base'' OPENAI_MODEL) =
      LlmChoices [Some ''```sql SELECT hash, details FROM blocks_base LIMIT 3; ```'']\<close>
    by (simp add: example_world_def generation_request_def)
  show ?thesis
    unfolding turn_generated [OF example_prompt g] example_sanitize
    by (simp add: executeQuery_def after_query_def)
qed

text \<open>
  For every other rejection the turn classifies the error: when the message is not empty, the
  turn prints it, then the error type, which is \<open>Syntax error\<close> if the message in lower case
  contains \<open>syntax\<close> and \<open>Database error\<close> otherwise, and then asks for the next question. The
  events are the same for both types but for the label.
\<close>

theorem execution_error_classified:
  assumes "toLowerCase prompt \<noteq> ''exit''" "toLowerCase prompt \<noteq> ''quit''" "trim prompt \<noteq> []"
    and "llm w (generation_request prompt SCHEMA_INFO chain OPENAI_MODEL) =
           LlmChoices (Some content # others)"
    and "db_query w (sanitize content) = DbThrows e" and "e \<noteq> []"
  shows "turn w rt chain prompt =
     [ConsoleLog ''\<newline>Generating SQL query...'',
      LlmCall (generation_request prompt SCHEMA_INFO chain OPENAI_MODEL),
      ConsoleLog ''Generated SQL:'',
      ConsoleLog (sanitize content),
      ConsoleLog [],
      ConsoleLog ''Executing query...'',
      DbQuery (sanitize content),
      ConsoleError (''Failed to execute query: '' @ e),
      ConsoleLog (''Error type: '' @
        (if includes_str (toLowerCase e) ''syntax'' then ''Syntax error'' else ''Database error'')),
      PromptUser]"
  unfolding turn_generated [OF assms(1-4)]
  using assms(5,6) by (simp add: executeQuery_def after_query_def errorType_def)

theorem execution_error_classified_witness:
  \<open>turn (example_world\<lparr>db_query := \<lambda>q. DbThrows ''ERROR: Syntax error at or near SELECT''\<rparr>)
      example_runtime ''base'' ''How many blocks?'' =
     [ConsoleLog ''\<newline>Generating SQL query...'',
      LlmCall (generation_request ''How many blocks?'' SCHEMA_INFO ''base'' OPENAI_MODEL),
      ConsoleLog ''Generated SQL:'',
      ConsoleLog ''SELECT hash, details FROM blocks_base LIMIT 3;'',
      ConsoleLog [],
      ConsoleLog ''Executing query...'',
      DbQuery ''SELECT hash, details FROM blocks_base LIMIT 3;'',
      ConsoleError ''Failed to execute query: ERROR: Syntax error at or near SELECT'',
      ConsoleLog ''Error type: Syntax error'',
      PromptUser] \<and>
   turn (example_world\<lparr>db_query := \<lambda>q. DbThrows ''relation "blocks_base" does not exist''\<rparr>)
      example_runtime ''base'' ''How many blocks?'' =
     [ConsoleLog ''\<newline>Generating SQL query...'',
      LlmCall (generation_request ''How many blocks?'' SCHEMA_INFO ''base'' OPENAI_MODEL),
      ConsoleLog ''Generated SQL:'',
      ConsoleLog ''SELECT hash, details FROM blocks_base LIMIT 3;'',
      ConsoleLog [],
      ConsoleLog ''Executing query...'',
      DbQuery ''SELECT hash, details FROM blocks_base LIMIT 3;'',
      ConsoleError ''Failed to execute query: relation "blocks_base" does not exist'',
      ConsoleLog ''Error type: Database error'',
      PromptUser]\<close>
proof -
  let ?e1 = "''ERROR: Syntax error at or near SELECT''"
  let ?e2 = \<open>''relation "blocks_base" does not exist''\<close>
  let ?w1 = "example_world\<lparr>db_query := \<lambda>q. DbThrows ?e1\<rparr>"
  let ?w2 = "example_world\<lparr>db_query := \<lambda>q. DbThrows ?e2\<rparr>"
  let ?c = \<open>''```sql SELECT hash, details FROM blocks_base LIMIT 3; ```''\<close>
  have g1: "llm ?w1 (generation_request ''How many blocks?'' SCHEMA_INFO ''base'' OPENAI_MODEL) =
      LlmChoices (Some ?c # [])"
    by (simp add: example_world_def generation_request_def)
  have g2: "llm ?w2 (generation_request ''How many blocks?'' SCHEMA_INFO ''base'' OPENAI_MODEL) =
      LlmChoices (Some ?c # [])"
    by (simp add: example_world_def generation_request_def)
  have d1: "db_query ?w1 (sanitize ?c) = DbThrows ?e1" by simp
  have d2: "db_query ?w2 (sanitize ?c) = DbThrows ?e2" by simp
  have n1: "?e1 \<noteq> []" by simp
  have n2: "?e2 \<noteq> []" by simp
  have c1: "includes_str (toLowerCase ?e1) ''syntax''" by code_simp
  have c2: "\<not> includes_str (toLowerCase ?e2) ''syntax''" by code_simp
  from execution_error_classified [OF example_prompt g1 d1 n1, of example_runtime]
    execution_error_classified [OF example_prompt g2 d2 n2, of example_runtime]
  show ?thesis
    unfolding example_sanitize by (simp add: c1 c2)
qed

text \<open>
  C3. In a turn whose query succeeds with no row (an empty \<open>rows\<close>, or a result without
  \<open>rows\<close>), the turn prints that the query returned no results and asks for the next question:
  the only call to the model is the generation call, so \<open>generateResponse\<close> is not invoked,
  and no CSV file is written. \<open>exportToCSV\<close> itself writes no file for rows that are \<open>null\<close> or
  empty.
\<close>

theorem empty_result_short_circuits:
  assumes "toLowerCase prompt \<noteq> ''exit''" "toLowerCase prompt \<noteq> ''quit''" "trim prompt \<noteq> []"
    and "llm w (generation_request prompt SCHEMA_INFO chain OPENAI_MODEL) =
           LlmChoices (Some content # others)"
    and "db_query w (sanitize content) = DbResult rows_field fieldNames rc"
    and "rows_field = None \<or> rows_field = Some []"
  shows "turn w rt chain prompt =
           [ConsoleLog ''\<newline>Generating SQL query...'',
            LlmCall (generation_request prompt SCHEMA_INFO chain OPENAI_MODEL),
            ConsoleLog ''Generated SQL:'',
            ConsoleLog (sanitize content),
            ConsoleLog [],
            ConsoleLog ''Executing query...'',
            DbQuery (sanitize content),
            ConsoleLog ''The query returned no results.'',
            PromptUser] \<and>
         llm_calls (turn w rt chain prompt) =
           [generation_request prompt SCHEMA_INFO chain OPENAI_MODEL] \<and>
         csv_files (turn w rt chain prompt) = [] \<and>
         last (turn w rt chain prompt) = PromptUser \<and>
         csv_files (exportToCSV w None columnNames) = [] \<and>
         csv_files (exportToCSV w (Some []) columnNames) = []"
proof -
  from assms(5,6)
  have "after_query w rt prompt (sanitize content)
          (snd (executeQuery (db_query w) (sanitize content))) =
        [ConsoleLog ''The query returned no results.'', PromptUser]"
    by (auto simp: executeQuery_def after_query_def)
  then show ?thesis
    unfolding turn_generated [OF assms(1-4)] by (simp add: exportToCSV_no_rows)
qed

theorem empty_result_short_circuits_witness:
  \<open>turn (example_world\<lparr>db_query := \<lambda>q. DbResult (Some []) [''hash'', ''details''] (Some 0)\<rparr>)
       example_runtime ''base'' ''How many blocks?'' =
     [ConsoleLog ''\<newline>Generating SQL query...'',
      LlmCall (generation_request ''How many blocks?'' SCHEMA_INFO ''base'' OPENAI_MODEL),
      ConsoleLog ''Generated SQL:'',
      ConsoleLog ''SELECT hash, details FROM blocks_base LIMIT 3;'',
      ConsoleLog [],
      ConsoleLog ''Executing query...'',
      DbQuery ''SELECT hash, details FROM blocks_base LIMIT 3;'',
      ConsoleLog ''The query returned no results.'',
      PromptUser] \<and>
   llm_calls (turn (example_world\<lparr>db_query := \<lambda>q. DbResult None [] (Some 2)\<rparr>)
       example_runtime ''base'' ''How many blocks?'') =
     [generation_request ''How many blocks?'' SCHEMA_INFO ''base'' OPENAI_MODEL] \<and>
   csv_files (turn (example_world\<lparr>db_query := \<lambda>q. DbResult None [] (Some 2)\<rparr>)
       example_runtime ''base'' ''How many blocks?'') = []\<close>
proof -
  let ?w1 = "example_world\<lparr>db_query := \<lambda>q. DbResult (Some []) [''hash'', ''details''] (Some 0)\<rparr>"
  let ?w2 = "example_world\<lparr>db_query := \<lambda>q. DbResult None [] (Some 2)\<rparr>"
  let ?c = \<open>''```sql SELECT hash, details FROM blocks_base LIMIT 3; ```''\<close>
  have g1: "llm ?w1 (generation_request ''How many blocks?'' SCHEMA_INFO ''base'' OPENAI_MODEL) =
      LlmChoices (Some ?c # [])"
    by (simp add: example_world_def generation_request_def)
  have g2: "llm ?w2 (generation_request ''How many blocks?'' SCHEMA_INFO ''base'' OPENAI_MODEL) =
      LlmChoices (Some ?c # [])"
    by (simp add: example_world_def generation_request_def)
  have d1: "db_query ?w1 (sanitize ?c) = DbResult (Some []) [''hash'', ''details''] (Some 0)"
    by simp
  have d2: "db_query ?w2 (sanitize ?c) = DbResult None [] (Some 2)" by simp
  have r1: "Some [] = None \<or> Some [] = Some ([] :: (int, string) row list)" by simp
  have r2: "None = None \<or> None = Some ([] :: (int, string) row list)" by simp
  from empty_result_short_circuits [OF example_prompt g1 d1 r1, of example_runtime]
    empty_result_short_circuits [OF example_prompt g2 d2 r2, of example_runtime]
  show ?thesis
    unfolding example_sanitize by blast
qed

text \<open>
  C4. In a turn whose query returns at least one row, the model is called a second time, and
  the user message of that call is made of the question, the sanitized query, the number of
  rows, the column names joined by a comma and a space, and \<open>JSON.stringify\<close> of the first five
  rows at most. For a result of three rows, these are the three rows.
\<close>

theorem summary_message_embeds:
  assumes "toLowerCase prompt \<noteq> ''exit''" "toLowerCase prompt \<noteq> ''quit''" "trim prompt \<noteq> []"
    and "llm w (generation_request prompt SCHEMA_INFO chain OPENAI_MODEL) =
           LlmChoices (Some content # others)"
    and "db_query w (sanitize content) = DbResult (Some rows) cols rc"
    and "rows \<noteq> []"
  shows \<open>llm_calls (turn w rt chain prompt) =
           [generation_request prompt SCHEMA_INFO chain OPENAI_MODEL,
            summary_request rt prompt (sanitize content) (QRows rows cols rc) OPENAI_MODEL] \<and>
         req_messages
             (summary_request rt prompt (sanitize content) (QRows rows cols rc) OPENAI_MODEL) =
           [(System, summary_systemMessage),
            (User,
             ''User question: '' @ prompt @ ''\<newline>''
             @ ''SQL query used: '' @ sanitize content @ ''\<newline>''
             @ ''Number of rows returned: '' @ show_nat (length rows) @ ''\<newline>''
             @ ''Column names: '' @ join '', '' cols @ ''\<newline>''
             @ ''Sample of results (first 5 rows):\<newline>''
             @ JSON_stringify_rows rt (take 5 rows) @ ''\<newline>''
             @ ''\<newline>''
             @ ''Please provide a natural language explanation of these results, focusing on insights that answer the user's question.'')] \<and>
         length (take 5 rows) \<le> 5 \<and>
         (length rows = 3 \<longrightarrow> take 5 rows = rows)\<close>
proof -
  from assms(5) have q: "snd (executeQuery (db_query w) (sanitize content)) = QRows rows cols rc"
    by (simp add: executeQuery_def)
  have "llm_calls (turn w rt chain prompt) =
           [generation_request prompt SCHEMA_INFO chain OPENAI_MODEL,
            summary_request rt prompt (sanitize content) (QRows rows cols rc) OPENAI_MODEL]"
    unfolding turn_generated [OF assms(1-4)] q after_query_rows [OF assms(6)]
    by (simp add: llm_calls_append llm_calls_exportToCSV split: resp_result.splits)
  moreover from assms(6) have "resultSample rt (QRows rows cols rc) = JSON_stringify_rows rt (take 5 rows)"
    by (simp add: resultSample_def)
  ultimately show ?thesis
    by (simp add: summary_request_def userMessage_def sample_rowCount_def colNames_def)
qed

theorem summary_message_embeds_witness:
  \<open>llm_calls (turn example_world example_runtime ''base'' ''How many blocks?'') =
     [generation_request ''How many blocks?'' SCHEMA_INFO ''base'' OPENAI_MODEL,
      summary_request example_runtime ''How many blocks?''
        ''SELECT hash, details FROM blocks_base LIMIT 3;''
        (QRows example_rows [''hash'', ''details''] (Some 3)) OPENAI_MODEL] \<and>
   req_messages
     (summary_request example_runtime ''How many blocks?''
        ''SELECT hash, details FROM blocks_base LIMIT 3;''
        (QRows example_rows [''hash'', ''details''] (Some 3)) OPENAI_MODEL) =
     [(System, summary_systemMessage),
      (User,
       ''User question: How many blocks?\<newline>SQL query used: SELECT hash, details FROM blocks_base LIMIT 3;\<newline>Number of rows returned: 3\<newline>Column names: hash, details\<newline>Sample of results (first 5 rows):\<newline>[{hash,details},{hash,details},{hash,details}]\<newline>\<newline>Please provide a natural language explanation of these results, focusing on insights that answer the user's question.'')] \<and>
   take 5 example_rows = example_rows\<close>
proof -
  have n: "show_nat (length example_rows) = ''3''" by code_simp
  have l: "length example_rows = 3" by (simp add: example_rows_def)
  have j: "join '', '' [''hash'', ''details''] = ''hash, details''" by code_simp
  have s: "JSON_stringify_rows example_runtime (take 5 example_rows) =
      ''[{hash,details},{hash,details},{hash,details}]''" by code_simp
  from summary_message_embeds [OF example_prompt example_generation example_database
      example_rows_nonempty, where rt = example_runtime and chain = "''base''"] l
  show ?thesis
    unfolding example_sanitize n j s by simp
qed

text \<open>
  C6. In a turn that reaches the summary, when \<open>generateResponse\<close> fails, the row count and
  the result table have been printed before the summary call, the failure is printed, and the
  loop asks for the next question.
\<close>

theorem summary_failure_keeps_results:
  assumes "toLowerCase prompt \<noteq> ''exit''" "toLowerCase prompt \<noteq> ''quit''" "trim prompt \<noteq> []"
    and "llm w (generation_request prompt SCHEMA_INFO chain OPENAI_MODEL) =
           LlmChoices (Some content # others)"
    and "db_query w (sanitize content) = DbResult (Some rows) cols rc"
    and "rows \<noteq> []"
    and "snd (generateResponse (llm w) rt prompt (sanitize content) (QRows rows cols rc) OPENAI_MODEL
           :: ('n, 'o) event list \<times> resp_result) = RespError e"
  shows \<open>turn w rt chain prompt =
     [ConsoleLog ''\<newline>Generating SQL query...'',
      LlmCall (generation_request prompt SCHEMA_INFO chain OPENAI_MODEL),
      ConsoleLog ''Generated SQL:'',
      ConsoleLog (sanitize content),
      ConsoleLog [],
      ConsoleLog ''Executing query...'',
      DbQuery (sanitize content),
      ConsoleLog (''Query returned '' @ show_count rc @ '' rows.''),
      ConsoleLog ''Results preview:'',
      ConsoleLog (formatResultTable rt (Some rows) (Some cols)),
      ConsoleLog [],
      RlQuestion ''Would you like to export these results to CSV? (y/n): '']
     @ (if toLowerCase (export_answer w) = ''y'' then exportToCSV w (Some rows) cols else [])
     @ [ConsoleLog ''Generating insights...'',
        LlmCall (summary_request rt prompt (sanitize content) (QRows rows cols rc) OPENAI_MODEL),
        ConsoleError (''Failed to generate insights: '' @ e),
        PromptUser]\<close>
proof -
  from assms(5) have q: "snd (executeQuery (db_query w) (sanitize content)) = QRows rows cols rc"
    by (simp add: executeQuery_def)
  show ?thesis
    unfolding turn_generated [OF assms(1-4)] q after_query_rows [OF assms(6)] assms(7)
    by simp
qed

theorem summary_failure_keeps_results_witness:
  \<open>turn example_world example_runtime ''base'' ''How many blocks?'' =
     [ConsoleLog ''\<newline>Generating SQL query...'',
      LlmCall (generation_request ''How many blocks?'' SCHEMA_INFO ''base'' OPENAI_MODEL),
      ConsoleLog ''Generated SQL:'',
      ConsoleLog ''SELECT hash, details FROM blocks_base LIMIT 3;'',
      ConsoleLog [],
      ConsoleLog ''Executing query...'',
      DbQuery ''SELECT hash, details FROM blocks_base LIMIT 3;'',
      ConsoleLog ''Query returned 3 rows.'',
      ConsoleLog ''Results preview:'',
      ConsoleLog (formatResultTable example_runtime (Some example_rows) (Some [''hash'', ''details''])),
      ConsoleLog [],
      RlQuestion ''Would you like to export these results to CSV? (y/n): '',
      ConsoleLog ''Generating insights...'',
      LlmCall (summary_request example_runtime ''How many blocks?''
        ''SELECT hash, details FROM blocks_base LIMIT 3;''
        (QRows example_rows [''hash'', ''details''] (Some 3)) OPENAI_MODEL),
      ConsoleError ''Failed to generate insights: Error generating response: Request timed out.'',
      PromptUser]\<close>
proof -
  have c: "show_count (Some 3) = ''3''" by code_simp
  have a: "toLowerCase (export_answer example_world) \<noteq> ''y''"
    unfolding example_world_def by code_simp
  have f: "snd (generateResponse (llm example_world) example_runtime ''How many blocks?''
      (sanitize ''```sql SELECT hash, details FROM blocks_base LIMIT 3; ```'')
      (QRows example_rows [''hash'', ''details''] (Some 3)) OPENAI_MODEL
        :: (int, string) event list \<times> resp_result) =
      RespError (''Error generating response: '' @ ''Request timed out.'')"
    by (simp add: generateResponse_def summary_request_def example_world_def)
  from summary_failure_keeps_results [OF example_prompt example_generation example_database
      example_rows_nonempty f, where chain = "''base''"] a
  show ?thesis
    unfolding example_sanitize c by simp
qed

end
